theory Spec2Isabelle
  imports Main "HOL-Library.List_Lexorder" "HOL-Library.Sublist" "HOL-Library.Multiset"
begin

section \<open>Strings, values and the library\<close>

text \<open>
  A Python \<open>str\<close> is a sequence of Unicode code points. The program lays out
  Chinese course names, so a character is a code point (a natural number), not a byte.
  ASCII literals of the source are written as their code points, with the text beside
  them.
\<close>

type_synonym codepoint = nat
type_synonym pystr = "codepoint list"

text \<open>
  The values the program reads out of a decoded JSON record with \<open>c.get(...)\<close>.
  \<open>PNone\<close> is Python's \<open>None\<close>: what \<open>c.get\<close> returns for a missing key
  and for a JSON null alike. The model covers the JSON scalars null, integer and string;
  JSON booleans, floats, arrays and objects as field values are outside it.
\<close>

datatype pyval = PNone | PInt int | PStr pystr

text \<open>
  The program calls three library functions whose code or tables are not part of the
  repository, and \<open>int()\<close> obeys a setting of the interpreter. They are parameters
  of the model:
  \<^item> \<open>wcswidth\<close>: the display width the \<open>wcwidth\<close> package gives a string,
    \<open>-1\<close> when the string has a non-printable character. The program also calls it
    on one character at a time, for the width of that character (0, 1 or 2 when it is
    printable);
  \<^item> \<open>isdigit\<close>: whether \<open>str.isdigit\<close> accepts the code point (Unicode
    Numeric_Type Digit or Decimal);
  \<^item> \<open>decimal\<close>: the value of the code point as a decimal digit, when \<open>int()\<close>
    accepts it (Unicode Numeric_Type Decimal);
  \<^item> \<open>int_max_str_digits\<close>: what \<open>sys.get_int_max_str_digits()\<close> returns,
    4300 unless it was changed, 0 for no limit.
\<close>

record py_env =
  wcswidth :: "pystr \<Rightarrow> int"
  isdigit :: "codepoint \<Rightarrow> bool"
  decimal :: "codepoint \<Rightarrow> nat option"
  int_max_str_digits :: nat

datatype exn = ValueError | TypeError | AttributeError | FetchError

subsection \<open>Display width\<close>

text \<open>
  The loop of \<open>pad_vis\<close> (lines 48 to 54): \<open>cur\<close> is the width taken so far,
  \<open>out\<close> the characters kept, \<open>break\<close> returns what was kept. The width of a
  character is \<open>wcswidth\<close> of the string made of it.
\<close>

fun pad_vis_loop :: "py_env \<Rightarrow> int \<Rightarrow> int \<Rightarrow> pystr \<Rightarrow> pystr \<Rightarrow> pystr" where
  "pad_vis_loop db width cur out [] = out"
| "pad_vis_loop db width cur out (ch # s) =
     (let w = wcswidth db [ch];
          w = max w 0 in
      if cur + w > width then out
      else pad_vis_loop db width (cur + w) (out @ [ch]) s)"

text \<open>
  Lines 55 to 57: the padding is measured with \<open>wcswidth\<close> of the whole kept string.
  \<open>" " * pad\<close> is the empty string when \<open>pad\<close> is negative; \<open>nat\<close> maps a
  negative integer to 0 in the same way.
\<close>

definition pad_vis :: "py_env \<Rightarrow> pystr \<Rightarrow> int \<Rightarrow> pystr" where
  "pad_vis db s width =
     (let out_s = pad_vis_loop db width 0 [] s;
          pad = width - wcswidth db out_s in
      out_s @ replicate (nat pad) 32)"

text \<open>
  The visual width in the words of the specification: the sum of the per-character
  widths, a negative (unknown) width counted as 0.
\<close>

definition visualWidth :: "py_env \<Rightarrow> pystr \<Rightarrow> int" where
  "visualWidth db s = sum_list (map (\<lambda>ch. max (wcswidth db [ch]) 0) s)"

subsection \<open>A concrete environment\<close>

text \<open>
  A concrete environment for evaluating the model on concrete inputs. The width of one
  code point is that of the Unicode tables for the ranges named here: printable ASCII
  (U+0020 to U+007E) is one column wide; NUL, the combining diacritical marks (U+0300 to
  U+036F), the format characters U+200B to U+200F (ZERO WIDTH JOINER among them) and the
  variation selectors U+FE00 to U+FE0F take no column; the other C0 and C1 control
  characters are non-printable; the CJK unified ideographs (U+4E00 to U+9FFF) are two
  columns wide. Every other code point is given width 1 here, which is right for HEAVY
  BLACK HEART (U+2764), the only one of them the file uses.
\<close>

definition excerpt_wcwidth :: "codepoint \<Rightarrow> int" where
  "excerpt_wcwidth ch =
     (if 32 \<le> ch \<and> ch < 127 then 1
      else if ch = 0 then 0
      else if ch < 32 \<or> (127 \<le> ch \<and> ch < 160) then - 1
      else if 768 \<le> ch \<and> ch \<le> 879 then 0
      else if 8203 \<le> ch \<and> ch \<le> 8207 then 0
      else if 65024 \<le> ch \<and> ch \<le> 65039 then 0
      else if 19968 \<le> ch \<and> ch \<le> 40959 then 2
      else 1)"

text \<open>
  The package's table of the characters that VARIATION SELECTOR-16 turns from narrow to
  wide; of it the excerpt has HEAVY BLACK HEART.
\<close>

definition excerpt_vs16_narrow_to_wide :: "codepoint \<Rightarrow> bool" where
  "excerpt_vs16_narrow_to_wide ch = (ch = 10084)"

text \<open>
  \<open>wcswidth\<close> as the \<open>wcwidth\<close> package computes it (release 0.2.13; the
  repository pins no release): it walks the string and adds up the widths of the
  characters, except that a ZERO WIDTH JOINER (U+200D) is skipped together with the
  character after it, and a VARIATION SELECTOR-16 (U+FE0F) that follows a character of
  positive width adds one column when that character is in the narrow-to-wide table; a
  non-printable character makes the result \<open>-1\<close>. \<open>measured\<close> is the package's
  \<open>last_measured_char\<close>; the Unicode version is the package's default, the latest
  one it knows.
\<close>

function excerpt_wcswidth_from :: "int \<Rightarrow> codepoint option \<Rightarrow> pystr \<Rightarrow> int" where
  "excerpt_wcswidth_from width measured [] = width"
| "excerpt_wcswidth_from width measured (ch # s) =
     (if ch = 8205 then excerpt_wcswidth_from width measured (tl s)
      else
        (case (if ch = 65039 then measured else None) of
           Some c \<Rightarrow>
             excerpt_wcswidth_from
               (width + (if excerpt_vs16_narrow_to_wide c then 1 else 0)) None s
         | None \<Rightarrow>
             (let wcw = excerpt_wcwidth ch in
              if wcw < 0 then wcw
              else excerpt_wcswidth_from (width + wcw)
                     (if wcw > 0 then Some ch else measured) s)))"
  by pat_completeness auto
termination
  by (relation "measure (\<lambda>(width, measured, s). length s)") auto

definition excerpt_wcswidth :: "pystr \<Rightarrow> int" where
  "excerpt_wcswidth s = excerpt_wcswidth_from 0 None s"

text \<open>
  \<open>str.isdigit\<close> accepts the ASCII digits, the Arabic-Indic digits (U+0660 to
  U+0669) and SUPERSCRIPT TWO (U+00B2); the first two ranges are decimal digits, the
  superscript is not. No other code point is given a digit property here. The digit
  limit is the interpreter's default.
\<close>

definition excerpt_env :: py_env where
  "excerpt_env =
     \<lparr> wcswidth = excerpt_wcswidth,
       isdigit = (\<lambda>ch. (48 \<le> ch \<and> ch \<le> 57) \<or> (1632 \<le> ch \<and> ch \<le> 1641) \<or> ch = 178),
       decimal = (\<lambda>ch.
         if 48 \<le> ch \<and> ch \<le> 57 then Some (ch - 48)
         else if 1632 \<le> ch \<and> ch \<le> 1641 then Some (ch - 1632)
         else None),
       int_max_str_digits = 4300 \<rparr>"

section \<open>Parsing the count\<close>

text \<open>
  \<open>val.isdigit()\<close>: the string is not empty and \<open>str.isdigit\<close> accepts each of
  its characters.
\<close>

definition str_isdigit :: "py_env \<Rightarrow> pystr \<Rightarrow> bool" where
  "str_isdigit db s = (s \<noteq> [] \<and> list_all (isdigit db) s)"

text \<open>
  \<open>int(val)\<close> as \<open>parse_int_or_none\<close> reaches it, on a string that passed
  \<open>isdigit()\<close> and so has no sign, blank or underscore. It raises \<open>ValueError\<close>
  when the string has more digits than the interpreter's limit allows (the limit applies
  to strings of more than 640 digits, and a limit of 0 means none), and at a character
  that is no decimal digit; otherwise it returns the base-10 value of the digits.
  Python's integers are unbounded.
\<close>

definition exceeds_digit_limit :: "py_env \<Rightarrow> pystr \<Rightarrow> bool" where
  "exceeds_digit_limit db s =
     (length s > 640 \<and> int_max_str_digits db > 0 \<and> length s > int_max_str_digits db)"

fun int_from_digits :: "py_env \<Rightarrow> nat \<Rightarrow> pystr \<Rightarrow> exn + nat" where
  "int_from_digits db acc [] = Inr acc"
| "int_from_digits db acc (ch # s) =
     (case decimal db ch of
        None \<Rightarrow> Inl ValueError
      | Some d \<Rightarrow> int_from_digits db (10 * acc + d) s)"

definition py_int :: "py_env \<Rightarrow> pystr \<Rightarrow> exn + nat" where
  "py_int db s =
     (if exceeds_digit_limit db s then Inl ValueError else int_from_digits db 0 s)"

definition parse_int_or_none :: "py_env \<Rightarrow> pyval \<Rightarrow> exn + int option" where
  "parse_int_or_none db val =
     (case val of
        PInt i \<Rightarrow> Inr (Some i)
      | PStr s \<Rightarrow>
          if str_isdigit db s then
            (case py_int db s of
               Inl e \<Rightarrow> Inl e
             | Inr n \<Rightarrow> Inr (Some (int n)))
          else Inr None
      | PNone \<Rightarrow> Inr None)"

text \<open>
  The integer a string of decimal digits denotes, for stating what the parser returns:
  over the ASCII digits, and over the decimal digits of the tables.
\<close>

definition ascii_digits :: "pystr \<Rightarrow> bool" where
  "ascii_digits s = list_all (\<lambda>ch. 48 \<le> ch \<and> ch \<le> 57) s"

definition ascii_value :: "pystr \<Rightarrow> nat" where
  "ascii_value s = foldl (\<lambda>acc ch. 10 * acc + (ch - 48)) 0 s"

definition decimal_digits :: "py_env \<Rightarrow> pystr \<Rightarrow> bool" where
  "decimal_digits db s = list_all (\<lambda>ch. isdigit db ch \<and> decimal db ch \<noteq> None) s"

definition decimal_value :: "py_env \<Rightarrow> pystr \<Rightarrow> nat" where
  "decimal_value db s = foldl (\<lambda>acc ch. 10 * acc + the (decimal db ch)) 0 s"

text \<open>
  What the tables must say about ASCII for the claims on ASCII strings: among the code
  points below 128, \<open>str.isdigit\<close> accepts exactly \<open>0\<close> to \<open>9\<close>, with
  their usual values.
\<close>

definition ascii_digit_tables :: "py_env \<Rightarrow> bool" where
  "ascii_digit_tables db =
     ((\<forall>ch<128. isdigit db ch = (48 \<le> ch \<and> ch \<le> 57)) \<and>
      (\<forall>ch. 48 \<le> ch \<and> ch \<le> 57 \<longrightarrow> decimal db ch = Some (ch - 48)))"

section \<open>Formatting a row\<close>

text \<open>
  \<open>str(n)\<close> of an integer: its decimal digits, most significant first, after a
  minus sign when it is negative.
\<close>

fun str_nat :: "nat \<Rightarrow> pystr" where
  "str_nat n = (if n < 10 then [48 + n] else str_nat (n div 10) @ [48 + n mod 10])"

declare str_nat.simps [simp del]

definition str_int :: "int \<Rightarrow> pystr" where
  "str_int i = (if i < 0 then 45 # str_nat (nat (- i)) else str_nat (nat i))"

text \<open>
  What an f-string writes for a field value: \<open>format(v, "")\<close>, which is \<open>str(v)\<close>
  for these types (\<open>None\<close> is written \<open>None\<close>).
\<close>

fun py_str :: "pyval \<Rightarrow> pystr" where
  "py_str PNone = [78, 111, 110, 101]"
| "py_str (PInt i) = str_int i"
| "py_str (PStr s) = s"

text \<open>
  The colour codes of \<open>colorama\<close>: \<open>ESC [ 3x m\<close> for the foreground colours,
  \<open>ESC [ 0 m\<close> for \<open>Style.RESET_ALL\<close>.
\<close>

definition Fore_RED :: pystr where "Fore_RED = [27, 91, 51, 49, 109]"
definition Fore_GREEN :: pystr where "Fore_GREEN = [27, 91, 51, 50, 109]"
definition Fore_YELLOW :: pystr where "Fore_YELLOW = [27, 91, 51, 51, 109]"
definition Fore_MAGENTA :: pystr where "Fore_MAGENTA = [27, 91, 51, 53, 109]"
definition Fore_CYAN :: pystr where "Fore_CYAN = [27, 91, 51, 54, 109]"
definition Style_RESET_ALL :: pystr where "Style_RESET_ALL = [27, 91, 48, 109]"

definition COL1_WIDTH :: int where "COL1_WIDTH = 54"
definition COL2_WIDTH :: int where "COL2_WIDTH = 16"

text \<open>
  \<open>s.find(sub)\<close>: the lowest index at which \<open>sub\<close> occurs in \<open>s\<close>, and
  \<open>-1\<close> when it does not occur. \<open>str_find_from\<close> searches the rest of the
  string, \<open>i\<close> being the index the rest starts at.
\<close>

fun str_find_from :: "nat \<Rightarrow> pystr \<Rightarrow> pystr \<Rightarrow> int" where
  "str_find_from i [] sub = (if sub = [] then int i else - 1)"
| "str_find_from i (ch # s) sub =
     (if prefix sub (ch # s) then int i else str_find_from (Suc i) s sub)"

definition str_find :: "pystr \<Rightarrow> pystr \<Rightarrow> int" where
  "str_find s sub = str_find_from 0 s sub"

text \<open>
  \<open>build_colored_line\<close> (lines 74 to 114), its local variables as functions of the
  arguments they depend on: the colour of the numeral, the numeral, the text of
  column 2, the coloured column 2.
\<close>

definition choose_color :: "int option \<Rightarrow> int option \<Rightarrow> pystr" where
  "choose_color choose_val prev_choose_val =
     (case prev_choose_val of
        None \<Rightarrow> Fore_YELLOW
      | Some p \<Rightarrow>
          (case choose_val of
             None \<Rightarrow> Fore_YELLOW
           | Some v \<Rightarrow>
               if v > p then Fore_RED
               else if v < p then Fore_GREEN
               else Fore_YELLOW))"

definition choose_str :: "int option \<Rightarrow> pystr" where
  "choose_str choose_val = (case choose_val of None \<Rightarrow> [45] | Some v \<Rightarrow> str_int v)"

definition part2_vis :: "int option \<Rightarrow> pyval \<Rightarrow> int option \<Rightarrow> pystr" where
  "part2_vis choose_val restrict2 prev_choose_val =
     (if choose_color choose_val prev_choose_val = Fore_RED then [43] else [45])
     @ [32] @ choose_str choose_val @ [32, 47, 32] @ py_str restrict2"

definition part2_col :: "py_env \<Rightarrow> int option \<Rightarrow> pyval \<Rightarrow> int option \<Rightarrow> pystr" where
  "part2_col db choose_val restrict2 prev_choose_val =
     (let part2_pad = pad_vis db (part2_vis choose_val restrict2 prev_choose_val) COL2_WIDTH;
          idx = str_find part2_pad (choose_str choose_val) in
      if idx \<ge> 0 then
        (let pre = take (nat idx) part2_pad;
             suffix = drop (nat idx + length (choose_str choose_val)) part2_pad in
         Fore_YELLOW @ pre
         @ choose_color choose_val prev_choose_val @ choose_str choose_val @ Fore_YELLOW
         @ suffix @ Style_RESET_ALL)
      else Fore_YELLOW @ part2_pad @ Style_RESET_ALL)"

definition build_colored_line ::
  "py_env \<Rightarrow> pyval \<Rightarrow> pyval \<Rightarrow> int option \<Rightarrow> pyval \<Rightarrow> pyval \<Rightarrow> int option \<Rightarrow> pystr" where
  "build_colored_line db course_no course_name choose_val restrict2 classroom prev_choose_val =
     (let part1_vis = py_str course_no @ [32, 124, 32] @ py_str course_name;
          part3_vis = [124, 32] @ py_str classroom;
          part1_pad = pad_vis db part1_vis COL1_WIDTH;
          part1_col = Fore_CYAN @ part1_pad @ Style_RESET_ALL;
          part3_col = Fore_GREEN @ part3_vis @ Style_RESET_ALL in
      part1_col @ part2_col db choose_val restrict2 prev_choose_val @ part3_col)"




section \<open>The terminal\<close>

text \<open>
  What the program does to the outside world, in the order it does it: a write to
  standard output, a flush of it, a sleep. \<open>TYPE_DELAY\<close> is 0.001 seconds and
  \<open>INTERVAL_SECONDS\<close> is 3 seconds.
\<close>

datatype delay = TYPE_DELAY | INTERVAL_SECONDS

datatype effect = Write pystr | Flush | Sleep delay

text \<open>
  \<open>ANSI_RE.match(line, i)\<close>, on the rest of the line from index \<open>i\<close>: the
  pattern is ESC, \<open>[\<close>, any number of parameter bytes (\<open>0\<close> to \<open>?\<close>, 48 to
  63), any number of intermediate bytes (blank to \<open>/\<close>, 32 to 47) and one final byte
  (\<open>@\<close> to \<open>~\<close>, 64 to 126). The three classes are disjoint, so the greedy match
  never backtracks: it takes all parameter bytes, then all intermediate bytes, and
  succeeds exactly when a final byte follows. The result is the matched text
  (\<open>m.group(0)\<close>) and the rest of the line from \<open>m.end()\<close>.
\<close>

definition ansi_match :: "pystr \<Rightarrow> (pystr \<times> pystr) option" where
  "ansi_match s =
     (case s of
        c1 # c2 # r \<Rightarrow>
          if c1 = 27 \<and> c2 = 91 then
            (let params = takeWhile (\<lambda>ch. 48 \<le> ch \<and> ch \<le> 63) r;
                 r1 = dropWhile (\<lambda>ch. 48 \<le> ch \<and> ch \<le> 63) r;
                 inter = takeWhile (\<lambda>ch. 32 \<le> ch \<and> ch \<le> 47) r1;
                 r2 = dropWhile (\<lambda>ch. 32 \<le> ch \<and> ch \<le> 47) r1 in
             case r2 of
               [] \<Rightarrow> None
             | final # rest \<Rightarrow>
                 if 64 \<le> final \<and> final \<le> 126
                 then Some (27 # 91 # params @ inter @ [final], rest)
                 else None)
          else None
      | _ \<Rightarrow> None)"

lemma ansi_match_shorter:
  "ansi_match s = Some (m, rest) \<Longrightarrow> length rest < length s"
proof -
  assume a: "ansi_match s = Some (m, rest)"
  then obtain c1 c2 r where s: "s = c1 # c2 # r"
    by (cases s rule: list.exhaust [case_product list.exhaust])
       (auto simp: ansi_match_def split: list.splits)
  let ?r1 = "dropWhile (\<lambda>ch. 48 \<le> ch \<and> ch \<le> 63) r"
  let ?r2 = "dropWhile (\<lambda>ch. 32 \<le> ch \<and> ch \<le> 47) ?r1"
  from a s obtain final where "?r2 = final # rest"
    by (auto simp: ansi_match_def Let_def split: list.splits if_splits)
  then have "length rest < length ?r2" by simp
  also have "length ?r2 \<le> length ?r1" by (rule length_dropWhile_le)
  also have "length ?r1 \<le> length r" by (rule length_dropWhile_le)
  finally show ?thesis by (simp add: s)
qed

text \<open>
  The loop of \<open>type_out\<close> (lines 119 to 127), on the rest of the line from index
  \<open>i\<close>: an escape sequence that matches here is printed whole and flushed, with no
  sleep; otherwise the character here is printed and flushed, and the loop sleeps
  \<open>TYPE_DELAY\<close>.
\<close>

function type_out_loop :: "pystr \<Rightarrow> effect list" where
  "type_out_loop [] = []"
| "type_out_loop (ch # s) =
     (case ansi_match (ch # s) of
        Some (m, rest) \<Rightarrow> [Write m, Flush] @ type_out_loop rest
      | None \<Rightarrow> [Write [ch], Flush, Sleep TYPE_DELAY] @ type_out_loop s)"
  by pat_completeness auto
termination
  by (relation "measure length") (auto dest: ansi_match_shorter)

text \<open>\<open>line.endswith("\n")\<close>, and \<open>print()\<close>, which writes a newline.\<close>

definition endswith_newline :: "pystr \<Rightarrow> bool" where
  "endswith_newline line = (line \<noteq> [] \<and> last line = 10)"

definition type_out :: "pystr \<Rightarrow> effect list" where
  "type_out line =
     type_out_loop line @ (if \<not> endswith_newline line then [Write [10]] else [])"

text \<open>
  For stating what \<open>type_out\<close> emits: the visual units of a line in the words of the
  specification (at each position either one complete escape sequence recognised there,
  or one character), the text of a unit, and what the animation does for a unit.
\<close>

datatype visual_unit = Escape pystr | Printable codepoint

function scan_units :: "pystr \<Rightarrow> visual_unit list" where
  "scan_units [] = []"
| "scan_units (ch # s) =
     (case ansi_match (ch # s) of
        Some (m, rest) \<Rightarrow> Escape m # scan_units rest
      | None \<Rightarrow> Printable ch # scan_units s)"
  by pat_completeness auto
termination
  by (relation "measure length") (auto dest: ansi_match_shorter)

fun unit_text :: "visual_unit \<Rightarrow> pystr" where
  "unit_text (Escape m) = m"
| "unit_text (Printable ch) = [ch]"

fun emit :: "visual_unit \<Rightarrow> effect list" where
  "emit (Escape m) = [Write m, Flush]"
| "emit (Printable ch) = [Write [ch], Flush, Sleep TYPE_DELAY]"

fun complete_unit :: "visual_unit \<Rightarrow> bool" where
  "complete_unit (Escape m) = (ansi_match m = Some (m, []))"
| "complete_unit (Printable ch) = True"

text \<open>The text written to standard output by a sequence of effects.\<close>

fun written :: "effect list \<Rightarrow> pystr" where
  "written [] = []"
| "written (Write s # es) = s @ written es"
| "written (Flush # es) = written es"
| "written (Sleep d # es) = written es"

text \<open>
  \<open>enable_sticky_title\<close> (lines 131 to 138); \<open>lines\<close> is what
  \<open>shutil.get_terminal_size().lines\<close> returns. It clears the screen
  (\<open>ESC [ 2 J\<close>), sets the scroll region to rows 2 to \<open>rows\<close>, homes the cursor,
  prints the title and moves the cursor to row 2.
\<close>

definition enable_sticky_title :: "nat \<Rightarrow> pystr \<Rightarrow> effect list" where
  "enable_sticky_title lines title =
     (let rows = (if lines \<noteq> 0 then lines else 24) in
      [Write [27, 91, 50, 74],
       Write ([27, 91, 50, 59] @ str_int (int rows) @ [114]),
       Write [27, 91, 49, 59, 49, 72],
       Write (Fore_MAGENTA @ title @ Style_RESET_ALL @ [10]),
       Write [27, 91, 50, 59, 49, 72],
       Flush])"

text \<open>\<open>reset_scroll_region\<close> (lines 141 to 143) writes \<open>ESC [ r\<close> and flushes.\<close>

definition reset_scroll_region :: "effect list" where
  "reset_scroll_region = [Write [27, 91, 114], Flush]"

text \<open>
  Modelled from the spec: the terminal emulator is not part of the repository. Of its
  state only the scroll region is modelled, as far as the specification describes it: a
  \<open>CSI r\<close> sequence with no parameter resets the scroll region to the full screen,
  one with parameters sets the margins they name, and nothing else the terminal reads
  changes the region. The terminal reads the written text unit by unit.
\<close>

datatype scroll_region = FullScreen | Margins pystr

fun read_unit :: "scroll_region \<Rightarrow> visual_unit \<Rightarrow> scroll_region" where
  "read_unit region (Printable ch) = region"
| "read_unit region (Escape m) =
     (let params = butlast (drop 2 m) in
      if last m = 114 \<and> list_all (\<lambda>ch. 48 \<le> ch \<and> ch \<le> 63) params
      then (if params = [] then FullScreen else Margins params)
      else region)"

definition terminal_reads :: "effect list \<Rightarrow> scroll_region \<Rightarrow> scroll_region" where
  "terminal_reads es region = foldl read_unit region (scan_units (written es))"

section \<open>The polling loop\<close>

text \<open>
  One element of the fetched snapshot, as the loop reads it: what \<open>c.get\<close> returns
  for the five keys the program uses. The retained state \<open>prev_state\<close> maps a
  course number to the dictionary stored at line 184.
\<close>

record course =
  CourseNo :: pyval
  CourseName :: pyval
  ChooseStudent :: pyval
  Restrict2 :: pyval
  ClassRoomNo :: pyval

record entry =
  name :: pyval
  choose_raw :: pyval
  restrict2 :: pyval
  room :: pyval

type_synonym retained = "pyval \<Rightarrow> entry option"

text \<open>Python's truth value of a field value, and \<open>a or b\<close>.\<close>

fun truthy :: "pyval \<Rightarrow> bool" where
  "truthy PNone = False"
| "truthy (PInt i) = (i \<noteq> 0)"
| "truthy (PStr s) = (s \<noteq> [])"

definition py_or :: "pyval \<Rightarrow> pyval \<Rightarrow> pyval" where
  "py_or a b = (if truthy a then a else b)"

text \<open>
  The body of the \<open>for\<close> loop (lines 160 to 189) for one record: the line appended
  to \<open>to_print\<close>, if any, and the retained state after the store at line 184. An
  exception leaves both as they were, since every call that can raise comes before the
  first of the two updates.
\<close>

definition process_record ::
  "py_env \<Rightarrow> bool \<Rightarrow> retained \<Rightarrow> course \<Rightarrow> exn + (pystr option \<times> retained)" where
  "process_record db first_run prev_state c =
     (let course_no = py_or (CourseNo c) (PStr [45]);
          name = py_or (CourseName c) (PStr [45]);
          choose_raw = ChooseStudent c in
      case parse_int_or_none db choose_raw of
        Inl e \<Rightarrow> Inl e
      | Inr choose_val \<Rightarrow>
          (let restrict2 = py_or (Restrict2 c) (PStr [45]);
               room = py_or (ClassRoomNo c) (PStr [45]);
               prev = prev_state course_no;
               changed = (case prev of
                            None \<Rightarrow> False
                          | Some p \<Rightarrow> choose_raw \<noteq> entry.choose_raw p);
               stored = prev_state(course_no \<mapsto>
                 \<lparr> name = name, choose_raw = choose_raw, restrict2 = restrict2, room = room \<rparr>) in
           if \<not> first_run \<and> changed then
             (case prev of
                None \<Rightarrow> Inl AttributeError
              | Some p \<Rightarrow>
                  (case parse_int_or_none db (entry.choose_raw p) of
                     Inl e \<Rightarrow> Inl e
                   | Inr prev_choose_val \<Rightarrow>
                       Inr (Some (build_colored_line db course_no name choose_val
                                    restrict2 room prev_choose_val),
                            stored)))
           else Inr (None, stored)))"

text \<open>
  The \<open>for\<close> loop over \<open>data_sorted\<close>: \<open>to_print\<close> and \<open>prev_state\<close>
  as they are when the loop ends, or when a record raises (the exception is the first
  component then).
\<close>

fun process_records ::
  "py_env \<Rightarrow> bool \<Rightarrow> course list \<Rightarrow> pystr list \<times> retained
     \<Rightarrow> exn option \<times> pystr list \<times> retained" where
  "process_records db first_run [] (to_print, prev_state) = (None, to_print, prev_state)"
| "process_records db first_run (c # cs) (to_print, prev_state) =
     (case process_record db first_run prev_state c of
        Inl e \<Rightarrow> (Some e, to_print, prev_state)
      | Inr (None, stored) \<Rightarrow> process_records db first_run cs (to_print, stored)
      | Inr (Some colored_line, stored) \<Rightarrow>
          process_records db first_run cs (to_print @ [colored_line], stored))"

text \<open>
  What \<open>fetch_courses\<close> hands to \<open>sorted\<close>: a value that cannot be iterated
  (\<open>TypeError\<close>), or the sequence of its elements, each a dictionary or anything else,
  on which \<open>c.get\<close> raises \<open>AttributeError\<close>.
\<close>

datatype item = Dict course | NotDict

datatype payload = Iterable "item list" | NotIterable

fun dicts_of :: "item list \<Rightarrow> exn + course list" where
  "dicts_of [] = Inr []"
| "dicts_of (NotDict # xs) = Inl AttributeError"
| "dicts_of (Dict c # xs) =
     (case dicts_of xs of Inl e \<Rightarrow> Inl e | Inr cs \<Rightarrow> Inr (c # cs))"

text \<open>
  \<open>sorted(data, key=lambda c: c.get("CourseNo") or "")\<close>: the keys are computed
  first; they are strings or non-zero integers. Strings compare by code points,
  integers by value, and comparing a string with an integer raises \<open>TypeError\<close>. The
  sort is stable.
\<close>

definition sorted_key :: "course \<Rightarrow> pyval" where
  "sorted_key c = py_or (CourseNo c) (PStr [])"

fun is_str :: "pyval \<Rightarrow> bool" where
  "is_str (PStr s) = True"
| "is_str v = False"

fun is_int :: "pyval \<Rightarrow> bool" where
  "is_int (PInt i) = True"
| "is_int v = False"

fun the_str :: "pyval \<Rightarrow> pystr" where
  "the_str (PStr s) = s"
| "the_str v = []"

fun the_int :: "pyval \<Rightarrow> int" where
  "the_int (PInt i) = i"
| "the_int v = 0"

definition py_sorted :: "payload \<Rightarrow> exn + course list" where
  "py_sorted data =
     (case data of
        NotIterable \<Rightarrow> Inl TypeError
      | Iterable items \<Rightarrow>
          (case dicts_of items of
             Inl e \<Rightarrow> Inl e
           | Inr cs \<Rightarrow>
               if list_all (\<lambda>c. is_str (sorted_key c)) cs
               then Inr (sort_key (\<lambda>c. the_str (sorted_key c)) cs)
               else if list_all (\<lambda>c. is_int (sorted_key c)) cs
               then Inr (sort_key (\<lambda>c. the_int (sorted_key c)) cs)
               else Inl TypeError))"

text \<open>
  One pass of the \<open>while True\<close> loop. \<open>fetch_courses\<close> returns the decoded
  response, raises (a transport error, a non-success status, a body that is no JSON), or
  is interrupted from the keyboard. The state of the loop is \<open>first_run\<close> and the
  module's \<open>prev_state\<close>.
\<close>

datatype fetched = Response payload | Raised | Interrupted

text \<open>
  Where Ctrl-C finds the program after the fetch, if it is pressed during the pass:
  in the \<open>for\<close> loop when \<open>j\<close> records have been processed, during the
  \<open>k\<close>-th of the writes, flushes and sleeps that end the \<open>try\<close> block
  (counted from 0), or during the sleep of the exception handler at line 203. Python
  raises \<open>KeyboardInterrupt\<close> at that point. A point that the pass does not reach
  (an exception came first, or the loop or the output was shorter) means that the signal
  does not arrive in this pass.
\<close>

datatype sigint = Quiet | In_loop nat | In_output nat | In_handler

record loop_state =
  first_run :: bool
  prev_state :: retained

datatype outcome = Completed | Exception exn | KeyboardInterrupt

definition sticky_title :: pystr where
  "sticky_title = [21152, 36864, 36984, 21363, 26178, 36890]"

text \<open>The records the loop gets to, and whether it is interrupted after them.\<close>

definition records_reached :: "sigint \<Rightarrow> course list \<Rightarrow> course list" where
  "records_reached sig data_sorted =
     (case sig of In_loop j \<Rightarrow> take j data_sorted | _ \<Rightarrow> data_sorted)"

definition interrupted_in_loop :: "sigint \<Rightarrow> course list \<Rightarrow> bool" where
  "interrupted_in_loop sig data_sorted =
     (case sig of In_loop j \<Rightarrow> j < length data_sorted | _ \<Rightarrow> False)"

text \<open>
  The \<open>try\<close> block (lines 154 to 198). \<open>first_run\<close> is set to \<open>False\<close>
  after the sticky title is written and before the sleep, so an interrupt during the
  title leaves it \<open>True\<close>. The effect during which the signal arrives is the last
  one of the pass.
\<close>

definition try_body ::
  "py_env \<Rightarrow> nat \<Rightarrow> sigint \<Rightarrow> fetched \<Rightarrow> loop_state
     \<Rightarrow> outcome \<times> effect list \<times> loop_state" where
  "try_body db lines sig f s =
     (case f of
        Interrupted \<Rightarrow> (KeyboardInterrupt, [], s)
      | Raised \<Rightarrow> (Exception FetchError, [], s)
      | Response data \<Rightarrow>
          (case py_sorted data of
             Inl e \<Rightarrow> (Exception e, [], s)
           | Inr data_sorted \<Rightarrow>
               (case process_records db (first_run s) (records_reached sig data_sorted)
                       ([], prev_state s) of
                  (Some e, to_print, stored) \<Rightarrow> (Exception e, [], s\<lparr>prev_state := stored\<rparr>)
                | (None, to_print, stored) \<Rightarrow>
                    if interrupted_in_loop sig data_sorted
                    then (KeyboardInterrupt, [], s\<lparr>prev_state := stored\<rparr>)
                    else
                      (let es = (if first_run s
                                 then enable_sticky_title lines sticky_title
                                 else concat (map (\<lambda>line. type_out (line @ [10])) to_print))
                                @ [Sleep INTERVAL_SECONDS];
                           s' = (if first_run s
                                 then \<lparr>first_run = False, prev_state = stored\<rparr>
                                 else s\<lparr>prev_state := stored\<rparr>) in
                       case sig of
                         In_output k \<Rightarrow>
                           if k < length es
                           then (KeyboardInterrupt, take (Suc k) es,
                                 if Suc k < length es then s\<lparr>prev_state := stored\<rparr> else s')
                           else (Completed, es, s')
                       | _ \<Rightarrow> (Completed, es, s')))))"

text \<open>
  The handlers (lines 200 to 203). A \<open>KeyboardInterrupt\<close> raised in the \<open>try\<close>
  block leaves the loop. Any other exception sleeps the interval and goes on to the next
  pass; that sleep is in the handler, outside the \<open>try\<close> block, so a
  \<open>KeyboardInterrupt\<close> raised during it is caught by no clause and leaves
  \<open>main\<close> as an uncaught exception.
\<close>

datatype control = Continue | Break | Uncaught

definition cycle ::
  "py_env \<Rightarrow> nat \<Rightarrow> sigint \<Rightarrow> fetched \<Rightarrow> loop_state
     \<Rightarrow> control \<times> effect list \<times> loop_state" where
  "cycle db lines sig f s =
     (case try_body db lines sig f s of
        (Completed, es, s') \<Rightarrow> (Continue, es, s')
      | (KeyboardInterrupt, es, s') \<Rightarrow> (Break, es, s')
      | (Exception e, es, s') \<Rightarrow>
          if sig = In_handler
          then (Uncaught, es @ [Sleep INTERVAL_SECONDS], s')
          else (Continue, es @ [Sleep INTERVAL_SECONDS], s'))"

text \<open>
  \<open>main\<close> on the passes the environment allows it: each element of \<open>env\<close> is
  what one pass meets (the terminal height, the keyboard signal and the result of the
  fetch). The result says whether the loop is still running after them, was left by
  \<open>break\<close>, or was left by an uncaught exception, what was done, and the state.
\<close>

fun main_loop ::
  "py_env \<Rightarrow> (nat \<times> sigint \<times> fetched) list \<Rightarrow> loop_state
     \<Rightarrow> control \<times> effect list \<times> loop_state" where
  "main_loop db [] s = (Continue, [], s)"
| "main_loop db ((lines, sig, f) # env) s =
     (case cycle db lines sig f s of
        (Continue, es, s') \<Rightarrow>
          (case main_loop db env s' of (ctl, es', s'') \<Rightarrow> (ctl, es @ es', s''))
      | (ctl, es, s') \<Rightarrow> (ctl, es, s'))"

definition main ::
  "py_env \<Rightarrow> (nat \<times> sigint \<times> fetched) list \<Rightarrow> control \<times> effect list \<times> loop_state" where
  "main db env = main_loop db env \<lparr>first_run = True, prev_state = Map.empty\<rparr>"

text \<open>
  For stating the claims on the retained state: the key a record is stored under and the
  dictionary stored for it.
\<close>

definition key_of :: "course \<Rightarrow> pyval" where
  "key_of c = py_or (CourseNo c) (PStr [45])"

definition entry_of :: "course \<Rightarrow> entry" where
  "entry_of c =
     \<lparr> name = py_or (CourseName c) (PStr [45]),
       choose_raw = ChooseStudent c,
       restrict2 = py_or (Restrict2 c) (PStr [45]),
       room = py_or (ClassRoomNo c) (PStr [45]) \<rparr>"

text \<open>
  For stating the order of the output: a record has changed against a retained state
  when the state has an entry under its key whose raw count differs from the record's;
  a line renders a record when it is \<open>build_colored_line\<close> of the record's fields
  and parsed count, for some previous count.
\<close>

definition changed :: "retained \<Rightarrow> course \<Rightarrow> bool" where
  "changed st c =
     (case st (key_of c) of
        None \<Rightarrow> False
      | Some p \<Rightarrow> ChooseStudent c \<noteq> entry.choose_raw p)"

definition renders :: "py_env \<Rightarrow> course \<Rightarrow> pystr \<Rightarrow> bool" where
  "renders db c colored_line =
     (\<exists>choose_val prev_choose_val.
        parse_int_or_none db (ChooseStudent c) = Inr choose_val \<and>
        colored_line =
          build_colored_line db (key_of c) (entry.name (entry_of c)) choose_val
            (entry.restrict2 (entry_of c)) (entry.room (entry_of c)) prev_choose_val)"

section \<open>Properties\<close>

subsection \<open>Padding to a visual width\<close>



lemma visualWidth_Nil [simp]: "visualWidth db [] = 0"
  by (simp add: visualWidth_def)

lemma visualWidth_Cons [simp]:
  "visualWidth db (ch # s) = max (wcswidth db [ch]) 0 + visualWidth db s"
  by (simp add: visualWidth_def)

lemma visualWidth_append [simp]:
  "visualWidth db (s @ t) = visualWidth db s + visualWidth db t"
  by (simp add: visualWidth_def)

lemma visualWidth_nonneg: "0 \<le> visualWidth db s"
  by (induction s) auto

lemma visualWidth_prefix_mono: "prefix p s \<Longrightarrow> visualWidth db p \<le> visualWidth db s"
  using visualWidth_nonneg by (auto simp: prefix_def)












subsection \<open>The count parser\<close>

lemma int_from_digits_decimal:
  "list_all (\<lambda>ch. decimal db ch \<noteq> None) s \<Longrightarrow>
   int_from_digits db acc s = Inr (foldl (\<lambda>acc ch. 10 * acc + the (decimal db ch)) acc s)"
  by (induction s arbitrary: acc) auto

lemma foldl_cong_digits:
  "list_all (\<lambda>ch. f ch = g ch) s \<Longrightarrow>
   foldl (\<lambda>acc ch. 10 * acc + f ch) (acc::nat) s = foldl (\<lambda>acc ch. 10 * acc + g ch) acc s"
  by (induction s arbitrary: acc) auto

lemma parse_decimal:
  assumes "s \<noteq> []" "decimal_digits db s" "\<not> exceeds_digit_limit db s"
  shows "parse_int_or_none db (PStr s) = Inr (Some (int (decimal_value db s)))"
proof -
  from assms(2) have d: "list_all (isdigit db) s" and v: "list_all (\<lambda>ch. decimal db ch \<noteq> None) s"
    by (simp_all add: decimal_digits_def list_all_iff)
  show ?thesis
    using assms(1,3) d int_from_digits_decimal [OF v, of 0]
    by (simp add: parse_int_or_none_def py_int_def str_isdigit_def decimal_value_def)
qed

lemma ascii_is_decimal:
  assumes "ascii_digit_tables db" "ascii_digits s"
  shows "decimal_digits db s \<and> decimal_value db s = ascii_value s"
proof -
  from assms have a: "list_all (\<lambda>ch. isdigit db ch \<and> decimal db ch \<noteq> None) s"
    by (auto simp: ascii_digit_tables_def ascii_digits_def list_all_iff)
  from assms have "list_all (\<lambda>ch. the (decimal db ch) = ch - 48) s"
    by (auto simp: ascii_digit_tables_def ascii_digits_def list_all_iff)
  from foldl_cong_digits [OF this, of 0] a show ?thesis
    by (simp add: decimal_digits_def decimal_value_def ascii_value_def)
qed

text \<open>
  Claim C10, as the code has it. With tables that are right about ASCII,
  \<open>parse_int_or_none\<close> returns an integer input as it is (negative ones too);
  for a non-empty string of ASCII digits, and more generally of decimal digits of the
  Unicode tables, that is not longer than the interpreter's limit on the digits of an
  integer allows (4300 digits by default), it returns the integer the digits denote; for
  a string of digits that is longer than the limit allows it raises \<open>ValueError\<close>;
  it returns \<open>None\<close> for \<open>None\<close>, for the empty string and for every string
  with a character that \<open>str.isdigit\<close> rejects, so for every string with an ASCII
  character that is no digit: a sign, a decimal point, as in \<open>-5\<close>.
\<close>

theorem parse_int_or_none_cases:
  assumes tables: "ascii_digit_tables db"
  shows "parse_int_or_none db (PInt i) = Inr (Some i) \<and>
    (s \<noteq> [] \<and> ascii_digits s \<and> \<not> exceeds_digit_limit db s \<longrightarrow>
       parse_int_or_none db (PStr s) = Inr (Some (int (ascii_value s)))) \<and>
    (s \<noteq> [] \<and> decimal_digits db s \<and> \<not> exceeds_digit_limit db s \<longrightarrow>
       parse_int_or_none db (PStr s) = Inr (Some (int (decimal_value db s)))) \<and>
    (list_all (isdigit db) s \<and> exceeds_digit_limit db s \<longrightarrow>
       parse_int_or_none db (PStr s) = Inl ValueError) \<and>
    parse_int_or_none db PNone = Inr None \<and>
    parse_int_or_none db (PStr []) = Inr None \<and>
    (\<not> list_all (isdigit db) s \<longrightarrow> parse_int_or_none db (PStr s) = Inr None) \<and>
    ((\<exists>ch\<in>set s. ch < 128 \<and> \<not> (48 \<le> ch \<and> ch \<le> 57)) \<longrightarrow> parse_int_or_none db (PStr s) = Inr None)"
proof -
  have 1: "parse_int_or_none db (PInt i) = Inr (Some i)"
    by (simp add: parse_int_or_none_def)
  have 2: "s \<noteq> [] \<and> ascii_digits s \<and> \<not> exceeds_digit_limit db s \<longrightarrow>
       parse_int_or_none db (PStr s) = Inr (Some (int (ascii_value s)))"
    using ascii_is_decimal [OF tables, of s] parse_decimal [of s db] by auto
  have 3: "s \<noteq> [] \<and> decimal_digits db s \<and> \<not> exceeds_digit_limit db s \<longrightarrow>
       parse_int_or_none db (PStr s) = Inr (Some (int (decimal_value db s)))"
    using parse_decimal [of s db] by simp
  have 4: "list_all (isdigit db) s \<and> exceeds_digit_limit db s \<longrightarrow>
       parse_int_or_none db (PStr s) = Inl ValueError"
    by (auto simp: parse_int_or_none_def py_int_def str_isdigit_def exceeds_digit_limit_def)
  have 5: "parse_int_or_none db PNone = Inr None" "parse_int_or_none db (PStr []) = Inr None"
    by (simp_all add: parse_int_or_none_def str_isdigit_def)
  have 6: "\<not> list_all (isdigit db) s \<longrightarrow> parse_int_or_none db (PStr s) = Inr None"
    by (simp add: parse_int_or_none_def str_isdigit_def)
  have 7: "(\<exists>ch\<in>set s. ch < 128 \<and> \<not> (48 \<le> ch \<and> ch \<le> 57)) \<longrightarrow> parse_int_or_none db (PStr s) = Inr None"
  proof
    assume "\<exists>ch\<in>set s. ch < 128 \<and> \<not> (48 \<le> ch \<and> ch \<le> 57)"
    then obtain ch where "ch \<in> set s" "ch < 128" "\<not> (48 \<le> ch \<and> ch \<le> 57)" by blast
    with tables have "\<not> list_all (isdigit db) s"
      by (auto simp: ascii_digit_tables_def list_all_iff)
    with 6 show "parse_int_or_none db (PStr s) = Inr None" by simp
  qed
  show ?thesis by (intro conjI 1 2 3 4 5 6 7)
qed

theorem parse_int_or_none_cases_witness:
  "ascii_digit_tables excerpt_env \<and>
   parse_int_or_none excerpt_env (PInt (- 5)) = Inr (Some (- 5)) \<and>
   parse_int_or_none excerpt_env (PStr [52, 56]) = Inr (Some 48) \<and>
   parse_int_or_none excerpt_env (PStr [45, 53]) = Inr None \<and>
   parse_int_or_none excerpt_env (PStr (replicate 4301 49)) = Inl ValueError"
proof -
  have t: "ascii_digit_tables excerpt_env"
    by (simp add: ascii_digit_tables_def excerpt_env_def)
  have a: "[52, 56] \<noteq> ([]::pystr) \<and> ascii_digits [52, 56] \<and> \<not> exceeds_digit_limit excerpt_env [52, 56]"
    "ascii_value [52, 56] = 48"
    by (simp_all add: ascii_digits_def ascii_value_def exceeds_digit_limit_def)
  have b: "\<exists>ch\<in>set [45, 53::nat]. ch < 128 \<and> \<not> (48 \<le> ch \<and> ch \<le> 57)" by simp
  have c: "list_all (isdigit excerpt_env) (replicate 4301 49) \<and>
      exceeds_digit_limit excerpt_env (replicate 4301 49)"
    by (simp add: exceeds_digit_limit_def excerpt_env_def list_all_iff)
  from parse_int_or_none_cases [OF t, of "- 5" "[52, 56]"] a
    parse_int_or_none_cases [OF t, of 0 "[45, 53]"] b
    parse_int_or_none_cases [OF t, of 0 "replicate 4301 49"] c t
  show ?thesis by simp
qed

text \<open>
  The claim's "\<open>None\<close> for every other input" fails at a string that is not made of
  ASCII digits: ARABIC-INDIC DIGIT ONE (U+0661) passes \<open>isdigit()\<close> and
  \<open>int()\<close> reads it as 1.
\<close>

theorem parse_int_or_none_unicode_digit:
  "\<not> ascii_digits [1633] \<and>
   parse_int_or_none excerpt_env (PStr [1633]) = Inr (Some 1) \<and>
   parse_int_or_none excerpt_env (PStr [1633]) \<noteq> Inr None"
  by (simp add: ascii_digits_def parse_int_or_none_def py_int_def exceeds_digit_limit_def
      str_isdigit_def excerpt_env_def)

subsection \<open>The coloured row\<close>






lemma str_find_from_skip:
  "\<not> prefix sub (ch # s) \<Longrightarrow> str_find_from i (ch # s) sub = str_find_from (Suc i) s sub"
  by simp












subsection \<open>The typing animation\<close>

lemma ansi_match_split:
  assumes "ansi_match s = Some (m, rest)"
  shows "s = m @ rest \<and> ansi_match m = Some (m, [])"
proof -
  let ?P = "\<lambda>ch::nat. 48 \<le> ch \<and> ch \<le> 63"
  let ?Q = "\<lambda>ch::nat. 32 \<le> ch \<and> ch \<le> 47"
  from assms obtain c1 c2 r where s: "s = c1 # c2 # r"
    by (cases s rule: list.exhaust [case_product list.exhaust])
       (auto simp: ansi_match_def split: list.splits)
  let ?r1 = "dropWhile ?P r"
  let ?r2 = "dropWhile ?Q ?r1"
  from assms s obtain final where c: "c1 = 27" "c2 = 91"
    and r2: "?r2 = final # rest" and fin: "64 \<le> final" "final \<le> 126"
    and m: "m = 27 # 91 # takeWhile ?P r @ takeWhile ?Q ?r1 @ [final]"
    by (auto simp: ansi_match_def Let_def split: list.splits if_splits)
  have "r = takeWhile ?P r @ ?r1" by simp
  also have "?r1 = takeWhile ?Q ?r1 @ ?r2" by simp
  finally have r: "r = takeWhile ?P r @ takeWhile ?Q ?r1 @ final # rest"
    by (simp only: r2)
  have split: "s = m @ rest" using r by (simp add: s c m)
  have nP: "\<not> ?P final" using fin by simp
  have nQ: "\<not> ?Q final" using fin by simp
  have allQ: "\<forall>ch\<in>set (takeWhile ?Q ?r1). ?Q ch" by (auto dest: set_takeWhileD)
  have tP_app: "takeWhile ?P (takeWhile ?P r @ ys) = takeWhile ?P r @ takeWhile ?P ys" for ys
    by (rule takeWhile_append2) (auto dest: set_takeWhileD)
  have dP_app: "dropWhile ?P (takeWhile ?P r @ ys) = dropWhile ?P ys" for ys
    by (rule dropWhile_append2) (auto dest: set_takeWhileD)
  have tQ_app: "takeWhile ?Q (takeWhile ?Q ?r1 @ ys) = takeWhile ?Q ?r1 @ takeWhile ?Q ys" for ys
    by (rule takeWhile_append2) (auto dest: set_takeWhileD)
  have dQ_app: "dropWhile ?Q (takeWhile ?Q ?r1 @ ys) = dropWhile ?Q ys" for ys
    by (rule dropWhile_append2) (auto dest: set_takeWhileD)
  have tP0: "takeWhile ?P (takeWhile ?Q ?r1 @ [final]) = []"
    using nP allQ by (cases "takeWhile ?Q ?r1") auto
  have dP0: "dropWhile ?P (takeWhile ?Q ?r1 @ [final]) = takeWhile ?Q ?r1 @ [final]"
    using nP allQ by (cases "takeWhile ?Q ?r1") auto
  have tP: "takeWhile ?P (takeWhile ?P r @ takeWhile ?Q ?r1 @ [final]) = takeWhile ?P r"
    by (simp only: tP_app tP0 append_Nil2)
  have dP: "dropWhile ?P (takeWhile ?P r @ takeWhile ?Q ?r1 @ [final]) = takeWhile ?Q ?r1 @ [final]"
    by (simp only: dP_app dP0)
  have tQ: "takeWhile ?Q (takeWhile ?Q ?r1 @ [final]) = takeWhile ?Q ?r1"
    using nQ by (simp only: tQ_app) simp
  have dQ: "dropWhile ?Q (takeWhile ?Q ?r1 @ [final]) = [final]"
    using nQ by (simp only: dQ_app) simp
  have "ansi_match m = Some (m, [])"
    unfolding m ansi_match_def using fin by (simp add: Let_def tP dP tQ dQ)
  with split show ?thesis by simp
qed

lemma type_out_loop_units: "type_out_loop line = concat (map emit (scan_units line))"
  by (induction line rule: scan_units.induct) (auto split: option.splits)

lemma scan_units_text: "concat (map unit_text (scan_units line)) = line"
proof (induction line rule: scan_units.induct)
  case 1
  show ?case by simp
next
  case (2 ch s)
  show ?case
  proof (cases "ansi_match (ch # s)")
    case None
    with 2 show ?thesis by simp
  next
    case (Some a)
    obtain m rest where a: "a = (m, rest)" by (cases a)
    from ansi_match_split [of "ch # s" m rest] Some a
    have split: "m @ rest = ch # s" by simp
    have "scan_units (ch # s) = Escape m # scan_units rest"
      using Some a by simp
    then have "concat (map unit_text (scan_units (ch # s))) =
        m @ concat (map unit_text (scan_units rest))"
      by simp
    also have "\<dots> = m @ rest"
      using 2(2) [OF Some a [symmetric]] by simp
    finally show ?thesis by (simp only: split)
  qed
qed

lemma scan_units_complete: "list_all complete_unit (scan_units line)"
proof (induction line rule: scan_units.induct)
  case 1
  show ?case by simp
next
  case (2 ch s)
  show ?case
  proof (cases "ansi_match (ch # s)")
    case None
    with 2 show ?thesis by simp
  next
    case (Some a)
    obtain m rest where a: "a = (m, rest)" by (cases a)
    from ansi_match_split [of "ch # s" m rest] Some a
    have "ansi_match m = Some (m, [])" by simp
    with 2(2) [OF Some a [symmetric]] Some a show ?thesis by simp
  qed
qed

lemma written_append [simp]: "written (es @ fs) = written es @ written fs"
  by (induction es rule: written.induct) auto

lemma written_emit [simp]: "written (emit u) = unit_text u"
  by (cases u) auto

lemma written_units: "written (concat (map emit us)) = concat (map unit_text us)"
  by (induction us) auto

text \<open>
  Claim C6. \<open>type_out\<close> emits a line unit by unit, and then a newline when the line
  does not end in one. The units partition the line (their texts, concatenated, are the
  line): at each position the unit is the complete escape sequence \<open>ANSI_RE\<close>
  matches there, written and flushed in one piece with no sleep, or else the single
  character there, written and flushed and followed by one sleep of \<open>TYPE_DELAY\<close>.
  So the text written is the line, plus the newline when it was missing.
\<close>

theorem type_out_units:
  "type_out line =
     concat (map emit (scan_units line)) @ (if endswith_newline line then [] else [Write [10]]) \<and>
   concat (map unit_text (scan_units line)) = line \<and>
   list_all complete_unit (scan_units line) \<and>
   (line \<noteq> [] \<longrightarrow>
      scan_units line =
        (case ansi_match line of
           Some (m, rest) \<Rightarrow> Escape m # scan_units rest
         | None \<Rightarrow> Printable (hd line) # scan_units (tl line))) \<and>
   written (type_out line) = line @ (if endswith_newline line then [] else [10])"
proof -
  have 1: "type_out line =
     concat (map emit (scan_units line)) @ (if endswith_newline line then [] else [Write [10]])"
    by (simp add: type_out_def type_out_loop_units)
  have 4: "line \<noteq> [] \<longrightarrow>
      scan_units line =
        (case ansi_match line of
           Some (m, rest) \<Rightarrow> Escape m # scan_units rest
         | None \<Rightarrow> Printable (hd line) # scan_units (tl line))"
    by (cases line) (simp_all split: option.splits)
  have 5: "written (type_out line) = line @ (if endswith_newline line then [] else [10])"
    by (simp add: 1 written_units scan_units_text)
  show ?thesis
    by (intro conjI 1 scan_units_text scan_units_complete 4 5)
qed


theorem type_out_units_witness:
  "scan_units [27, 91, 51, 49, 109, 65] = [Escape [27, 91, 51, 49, 109], Printable 65] \<and>
   type_out [27, 91, 51, 49, 109, 65] =
     [Write [27, 91, 51, 49, 109], Flush, Write [65], Flush, Sleep TYPE_DELAY, Write [10]]"
proof -
  have m: "ansi_match [27, 91, 51, 49, 109, 65] = Some ([27, 91, 51, 49, 109], [65])"
    by (simp add: ansi_match_def)
  have n: "ansi_match [65] = None"
    by (simp add: ansi_match_def)
  have e: "scan_units [] = []" by simp
  have nl: "\<not> endswith_newline [27, 91, 51, 49, 109, 65]"
    by (simp add: endswith_newline_def)
  from type_out_units [of "[65]"] n e
  have a: "scan_units [65] = [Printable 65]" by simp
  from type_out_units [of "[27, 91, 51, 49, 109, 65]"] m a
  have b: "scan_units [27, 91, 51, 49, 109, 65] = [Escape [27, 91, 51, 49, 109], Printable 65]"
    by simp
  from type_out_units [of "[27, 91, 51, 49, 109, 65]"] b nl
  have "type_out [27, 91, 51, 49, 109, 65] =
     [Write [27, 91, 51, 49, 109], Flush, Write [65], Flush, Sleep TYPE_DELAY, Write [10]]"
    by simp
  with b show ?thesis by simp
qed

subsection \<open>Resetting the scroll region\<close>

lemma ansi_match_reset: "ansi_match (27 # 91 # 114 # s) = Some ([27, 91, 114], s)"
  by (simp add: ansi_match_def)

lemma reads_reset: "terminal_reads reset_scroll_region region = FullScreen"
  by (simp add: terminal_reads_def reset_scroll_region_def ansi_match_reset)

lemma reads_reset_twice:
  "terminal_reads (reset_scroll_region @ reset_scroll_region) region = FullScreen"
  by (simp add: terminal_reads_def reset_scroll_region_def ansi_match_reset)

text \<open>
  Claim C9. \<open>reset_scroll_region\<close> takes no argument and reads no state: whether or
  not the sticky title was ever set up, it writes exactly the sequence \<open>ESC [ r\<close> and
  flushes. On a terminal that reads it as the scroll-region reset, the region is the full
  screen afterwards whatever it was before, and running it twice leaves the terminal as
  running it once does.
\<close>

theorem reset_scroll_region_idempotent:
  "reset_scroll_region = [Write [27, 91, 114], Flush] \<and>
   written (reset_scroll_region @ reset_scroll_region) = [27, 91, 114, 27, 91, 114] \<and>
   terminal_reads reset_scroll_region region = FullScreen \<and>
   terminal_reads (reset_scroll_region @ reset_scroll_region) region =
     terminal_reads reset_scroll_region region \<and>
   terminal_reads reset_scroll_region (terminal_reads reset_scroll_region region) =
     terminal_reads reset_scroll_region region"
  by (simp add: reads_reset reads_reset_twice) (simp add: reset_scroll_region_def)

subsection \<open>Processing a record\<close>

lemma parse_int_or_none_raises:
  "parse_int_or_none db v = Inl e \<Longrightarrow> e = ValueError"
proof -
  have "int_from_digits db acc s = Inl e \<Longrightarrow> e = ValueError" for acc s
    by (induction s arbitrary: acc) (auto split: option.splits)
  moreover assume "parse_int_or_none db v = Inl e"
  ultimately show ?thesis
    by (auto simp: parse_int_or_none_def py_int_def split: pyval.splits if_splits sum.splits)
qed

lemma process_record_Inr:
  assumes "process_record db fr st c = Inr (delta, st')"
  shows "st' = st(key_of c \<mapsto> entry_of c)"
    and "(delta \<noteq> None) =
      (\<not> fr \<and> (\<exists>p. st (key_of c) = Some p \<and> ChooseStudent c \<noteq> entry.choose_raw p))"
    and "\<exists>cv. parse_int_or_none db (ChooseStudent c) = Inr cv \<and>
      (\<forall>l. delta = Some l \<longrightarrow>
         (\<exists>pv. l = build_colored_line db (key_of c) (entry.name (entry_of c)) cv
                    (entry.restrict2 (entry_of c)) (entry.room (entry_of c)) pv))"
  using assms
  by (auto simp: process_record_def key_of_def entry_of_def Let_def
      split: sum.splits option.splits if_splits)

lemma process_record_Inl:
  assumes "process_record db fr st c = Inl e"
  shows "e = ValueError \<and>
    (parse_int_or_none db (ChooseStudent c) = Inl ValueError \<or>
     (\<exists>p. st (key_of c) = Some p \<and> parse_int_or_none db (entry.choose_raw p) = Inl ValueError))"
  using assms
  by (auto simp: process_record_def key_of_def Let_def
      split: sum.splits option.splits if_splits dest: parse_int_or_none_raises)

lemma process_records_baseline:
  "process_records db True cs (to_print, st) = (r, to_print', st') \<Longrightarrow> to_print' = to_print"
proof (induction cs arbitrary: st)
  case Nil
  then show ?case by simp
next
  case (Cons c cs)
  show ?case
  proof (cases "process_record db True st c")
    case (Inl e)
    with Cons.prems show ?thesis by simp
  next
    case (Inr a)
    obtain d st1 where a: "a = (d, st1)" by (cases a)
    from process_record_Inr(2) [of db True st c d st1] Inr a have "d = None" by simp
    with Cons.prems Inr a have "process_records db True cs (to_print, st1) = (r, to_print', st')"
      by simp
    then show ?thesis by (rule Cons.IH)
  qed
qed

lemma try_body_Completed:
  assumes "try_body db lines sig (Response data) s = (Completed, es, s')"
    and "py_sorted data = Inr ds"
  shows "\<exists>to_print.
    process_records db (first_run s) ds ([], prev_state s) = (None, to_print, prev_state s') \<and>
    es = (if first_run s then enable_sticky_title lines sticky_title
          else concat (map (\<lambda>line. type_out (line @ [10])) to_print))
         @ [Sleep INTERVAL_SECONDS]"
proof -
  have reached: "records_reached sig ds = ds" if "\<not> interrupted_in_loop sig ds"
    using that by (cases sig) (simp_all add: records_reached_def interrupted_in_loop_def)
  obtain r to_print stored where
    pr: "process_records db (first_run s) (records_reached sig ds) ([], prev_state s) =
           (r, to_print, stored)"
    by (cases "process_records db (first_run s) (records_reached sig ds) ([], prev_state s)") auto
  from assms pr have r: "r = None" and ni: "\<not> interrupted_in_loop sig ds"
    by (auto simp: try_body_def split: option.splits if_splits)
  from assms pr r ni have "prev_state s' = stored \<and>
    es = (if first_run s then enable_sticky_title lines sticky_title
          else concat (map (\<lambda>line. type_out (line @ [10])) to_print))
         @ [Sleep INTERVAL_SECONDS]"
    by (cases sig) (auto simp: try_body_def Let_def split: if_splits)
  with pr r reached [OF ni] show ?thesis by auto
qed

subsection \<open>Detecting a change\<close>

text \<open>
  SUPERSCRIPT TWO (U+00B2) is a digit for \<open>str.isdigit\<close> and no decimal digit for
  \<open>int()\<close>: on the string made of it the guard of \<open>parse_int_or_none\<close> lets
  \<open>int()\<close> be called, and \<open>int()\<close> raises.
\<close>

lemma superscript_raises:
  "str_isdigit excerpt_env [178] \<and> py_int excerpt_env [178] = Inl ValueError \<and>
   parse_int_or_none excerpt_env (PStr [178]) = Inl ValueError"
  by (simp add: parse_int_or_none_def py_int_def exceeds_digit_limit_def str_isdigit_def
      excerpt_env_def)

text \<open>
  Claim C1 does not hold of the code: a record that has a prior entry and a different raw
  count on a pass after the first can go without its line. In the run below the first
  snapshot gives the courses A and B the count 1. In the second snapshot the count of A
  is 2 and the raw count of B is the string of SUPERSCRIPT TWO. A has changed against
  what the first pass retained, and the loop appends its line to \<open>to_print\<close> and
  stores its new count; then \<open>parse_int_or_none\<close> raises \<open>ValueError\<close> at B,
  the pass is abandoned before anything is typed, and the handler sleeps. The third
  snapshot repeats A and has the count 1 for B: nothing differs from what is retained
  any more. Over the three passes the program writes the sticky title and nothing else:
  the line for the change of A from 1 to 2 is never written.
\<close>

theorem changed_record_line_dropped:
  "main excerpt_env
     [(24, Quiet, Response (Iterable
        [Dict \<lparr>CourseNo = PStr [65], CourseName = PNone, ChooseStudent = PInt 1,
                Restrict2 = PNone, ClassRoomNo = PNone\<rparr>,
         Dict \<lparr>CourseNo = PStr [66], CourseName = PNone, ChooseStudent = PInt 1,
                Restrict2 = PNone, ClassRoomNo = PNone\<rparr>]))] =
   (Continue,
    enable_sticky_title 24 sticky_title @ [Sleep INTERVAL_SECONDS],
    \<lparr>first_run = False,
     prev_state = Map.empty
       (PStr [65] \<mapsto>
          \<lparr>name = PStr [45], choose_raw = PInt 1, restrict2 = PStr [45], room = PStr [45]\<rparr>,
        PStr [66] \<mapsto>
          \<lparr>name = PStr [45], choose_raw = PInt 1, restrict2 = PStr [45], room = PStr [45]\<rparr>)\<rparr>) \<and>
   changed
     (Map.empty
       (PStr [65] \<mapsto>
          \<lparr>name = PStr [45], choose_raw = PInt 1, restrict2 = PStr [45], room = PStr [45]\<rparr>,
        PStr [66] \<mapsto>
          \<lparr>name = PStr [45], choose_raw = PInt 1, restrict2 = PStr [45], room = PStr [45]\<rparr>))
     \<lparr>CourseNo = PStr [65], CourseName = PNone, ChooseStudent = PInt 2,
      Restrict2 = PNone, ClassRoomNo = PNone\<rparr> \<and>
   main excerpt_env
     [(24, Quiet, Response (Iterable
        [Dict \<lparr>CourseNo = PStr [65], CourseName = PNone, ChooseStudent = PInt 1,
                Restrict2 = PNone, ClassRoomNo = PNone\<rparr>,
         Dict \<lparr>CourseNo = PStr [66], CourseName = PNone, ChooseStudent = PInt 1,
                Restrict2 = PNone, ClassRoomNo = PNone\<rparr>])),
      (24, Quiet, Response (Iterable
        [Dict \<lparr>CourseNo = PStr [65], CourseName = PNone, ChooseStudent = PInt 2,
                Restrict2 = PNone, ClassRoomNo = PNone\<rparr>,
         Dict \<lparr>CourseNo = PStr [66], CourseName = PNone, ChooseStudent = PStr [178],
                Restrict2 = PNone, ClassRoomNo = PNone\<rparr>])),
      (24, Quiet, Response (Iterable
        [Dict \<lparr>CourseNo = PStr [65], CourseName = PNone, ChooseStudent = PInt 2,
                Restrict2 = PNone, ClassRoomNo = PNone\<rparr>,
         Dict \<lparr>CourseNo = PStr [66], CourseName = PNone, ChooseStudent = PInt 1,
                Restrict2 = PNone, ClassRoomNo = PNone\<rparr>]))] =
   (Continue,
    enable_sticky_title 24 sticky_title
      @ [Sleep INTERVAL_SECONDS, Sleep INTERVAL_SECONDS, Sleep INTERVAL_SECONDS],
    \<lparr>first_run = False,
     prev_state = Map.empty
       (PStr [65] \<mapsto>
          \<lparr>name = PStr [45], choose_raw = PInt 2, restrict2 = PStr [45], room = PStr [45]\<rparr>,
        PStr [66] \<mapsto>
          \<lparr>name = PStr [45], choose_raw = PInt 1, restrict2 = PStr [45], room = PStr [45]\<rparr>)\<rparr>)"
proof -
  let ?c = "\<lambda>no count. \<lparr>CourseNo = PStr no, CourseName = PNone, ChooseStudent = count,
                Restrict2 = PNone, ClassRoomNo = PNone\<rparr>"
  let ?e = "\<lambda>count. \<lparr>name = PStr [45], choose_raw = count, restrict2 = PStr [45],
                room = PStr [45]\<rparr>"
  have srt: "py_sorted (Iterable [Dict (?c [65] a), Dict (?c [66] b)]) =
      Inr [?c [65] a, ?c [66] b]" for a b
    by (simp add: py_sorted_def sorted_key_def py_or_def)
  have first: "process_record excerpt_env True st (?c no (PInt i)) =
      Inr (None, st(PStr no \<mapsto> ?e (PInt i)))" if "no \<noteq> []" for st no i
    using that by (simp add: process_record_def parse_int_or_none_def py_or_def Let_def)
  have same: "process_record excerpt_env False st (?c no (PInt i)) =
      Inr (None, st(PStr no \<mapsto> ?e (PInt i)))"
    if "no \<noteq> []" "st (PStr no) = Some (?e (PInt i))" for st no i
    using that by (simp add: process_record_def parse_int_or_none_def py_or_def Let_def)
  have diff: "process_record excerpt_env False st (?c no (PInt i)) =
      Inr (Some (build_colored_line excerpt_env (PStr no) (PStr [45]) (Some i) (PStr [45])
                   (PStr [45]) (Some j)),
           st(PStr no \<mapsto> ?e (PInt i)))"
    if "no \<noteq> []" "st (PStr no) = Some (?e (PInt j))" "i \<noteq> j" for st no i j
    using that by (simp add: process_record_def parse_int_or_none_def py_or_def Let_def)
  have bad: "process_record excerpt_env False st (?c no (PStr [178])) = Inl ValueError"
    for st no
    using superscript_raises by (simp add: process_record_def py_or_def Let_def)
  have upd: "Map.empty
       (PStr [65] \<mapsto> ?e (PInt 1), PStr [66] \<mapsto> ?e (PInt 1), PStr [65] \<mapsto> ?e (PInt 2),
        PStr [65] \<mapsto> ?e (PInt 2), PStr [66] \<mapsto> ?e (PInt 1)) =
     Map.empty (PStr [65] \<mapsto> ?e (PInt 2), PStr [66] \<mapsto> ?e (PInt 1))"
    by (rule ext) simp
  have 1: "main excerpt_env [(24, Quiet, Response (Iterable
        [Dict (?c [65] (PInt 1)), Dict (?c [66] (PInt 1))]))] =
      (Continue, enable_sticky_title 24 sticky_title @ [Sleep INTERVAL_SECONDS],
       \<lparr>first_run = False,
        prev_state = Map.empty (PStr [65] \<mapsto> ?e (PInt 1), PStr [66] \<mapsto> ?e (PInt 1))\<rparr>)"
    by (simp add: main_def cycle_def try_body_def srt records_reached_def
        interrupted_in_loop_def first)
  have 2: "changed (Map.empty (PStr [65] \<mapsto> ?e (PInt 1), PStr [66] \<mapsto> ?e (PInt 1)))
      (?c [65] (PInt 2))"
    by (simp add: changed_def key_of_def py_or_def)
  have 3: "main excerpt_env
     [(24, Quiet, Response (Iterable [Dict (?c [65] (PInt 1)), Dict (?c [66] (PInt 1))])),
      (24, Quiet, Response (Iterable [Dict (?c [65] (PInt 2)), Dict (?c [66] (PStr [178]))])),
      (24, Quiet, Response (Iterable [Dict (?c [65] (PInt 2)), Dict (?c [66] (PInt 1))]))] =
     (Continue,
      enable_sticky_title 24 sticky_title
        @ [Sleep INTERVAL_SECONDS, Sleep INTERVAL_SECONDS, Sleep INTERVAL_SECONDS],
      \<lparr>first_run = False,
       prev_state = Map.empty (PStr [65] \<mapsto> ?e (PInt 2), PStr [66] \<mapsto> ?e (PInt 1))\<rparr>)"
    by (simp add: main_def cycle_def try_body_def srt records_reached_def
        interrupted_in_loop_def first same diff bad upd)
  show ?thesis by (intro conjI 1 2 3)
qed

subsection \<open>A record without a course number\<close>

lemma process_record_placeholder:
  "\<not> truthy (CourseNo c) \<Longrightarrow>
   process_record db fr st c = process_record db fr st (c\<lparr>CourseNo := PStr [45]\<rparr>)"
  by (simp add: process_record_def py_or_def Let_def split: sum.splits)

text \<open>
  Claim C3, as the code has it. A record whose \<open>CourseNo\<close> is missing (or null, or
  empty) is not skipped: the loop gives it the placeholder key \<open>-\<close> and processes
  it exactly as a record with that course number, so it is compared with the entry
  retained under \<open>-\<close>, may produce a line, and is stored under \<open>-\<close>. The
  records after it are processed from the state it leaves.
\<close>

theorem missing_key_uses_placeholder:
  assumes "\<not> truthy (CourseNo c)"
  shows "key_of c = PStr [45] \<and>
    process_record db fr st c = process_record db fr st (c\<lparr>CourseNo := PStr [45]\<rparr>) \<and>
    (\<forall>delta st'. process_record db fr st c = Inr (delta, st') \<longrightarrow>
       st' = st(PStr [45] \<mapsto> entry_of c) \<and>
       (delta \<noteq> None) =
         (\<not> fr \<and> (\<exists>p. st (PStr [45]) = Some p \<and> ChooseStudent c \<noteq> entry.choose_raw p)) \<and>
       process_records db fr (c # cs) (to_print, st) =
         process_records db fr cs (to_print @ (case delta of None \<Rightarrow> [] | Some l \<Rightarrow> [l]), st'))"
proof -
  have k: "key_of c = PStr [45]"
    using assms by (simp add: key_of_def py_or_def)
  have "\<forall>delta st'. process_record db fr st c = Inr (delta, st') \<longrightarrow>
       st' = st(PStr [45] \<mapsto> entry_of c) \<and>
       (delta \<noteq> None) =
         (\<not> fr \<and> (\<exists>p. st (PStr [45]) = Some p \<and> ChooseStudent c \<noteq> entry.choose_raw p)) \<and>
       process_records db fr (c # cs) (to_print, st) =
         process_records db fr cs (to_print @ (case delta of None \<Rightarrow> [] | Some l \<Rightarrow> [l]), st')"
  proof (intro allI impI)
    fix delta st'
    assume run: "process_record db fr st c = Inr (delta, st')"
    from process_record_Inr(1,2) [OF run] k
    have a: "st' = st(PStr [45] \<mapsto> entry_of c)"
      and b: "(delta \<noteq> None) =
         (\<not> fr \<and> (\<exists>p. st (PStr [45]) = Some p \<and> ChooseStudent c \<noteq> entry.choose_raw p))"
      by simp_all
    have "process_records db fr (c # cs) (to_print, st) =
         process_records db fr cs (to_print @ (case delta of None \<Rightarrow> [] | Some l \<Rightarrow> [l]), st')"
      using run by (cases delta) simp_all
    with a b show "st' = st(PStr [45] \<mapsto> entry_of c) \<and>
       (delta \<noteq> None) =
         (\<not> fr \<and> (\<exists>p. st (PStr [45]) = Some p \<and> ChooseStudent c \<noteq> entry.choose_raw p)) \<and>
       process_records db fr (c # cs) (to_print, st) =
         process_records db fr cs (to_print @ (case delta of None \<Rightarrow> [] | Some l \<Rightarrow> [l]), st')"
      by blast
  qed
  with k process_record_placeholder [OF assms] show ?thesis by blast
qed

text \<open>
  A record with no \<open>CourseNo\<close> whose count is 2, met on a later pass when the entry
  retained under \<open>-\<close> has the count 1: a line is produced and the entry is
  overwritten. On the first pass, with nothing retained, the record is stored under
  \<open>-\<close>.
\<close>

theorem missing_key_not_skipped:
  "process_record excerpt_env False
     (Map.empty(PStr [45] \<mapsto>
        \<lparr>name = PStr [45], choose_raw = PInt 1, restrict2 = PStr [45], room = PStr [45]\<rparr>))
     \<lparr>CourseNo = PNone, CourseName = PNone, ChooseStudent = PInt 2,
      Restrict2 = PNone, ClassRoomNo = PNone\<rparr> =
   Inr (Some (build_colored_line excerpt_env (PStr [45]) (PStr [45]) (Some 2)
               (PStr [45]) (PStr [45]) (Some 1)),
        Map.empty(PStr [45] \<mapsto>
          \<lparr>name = PStr [45], choose_raw = PInt 2, restrict2 = PStr [45], room = PStr [45]\<rparr>)) \<and>
   process_record excerpt_env True Map.empty
     \<lparr>CourseNo = PNone, CourseName = PNone, ChooseStudent = PInt 2,
      Restrict2 = PNone, ClassRoomNo = PNone\<rparr> =
   Inr (None,
        Map.empty(PStr [45] \<mapsto>
          \<lparr>name = PStr [45], choose_raw = PInt 2, restrict2 = PStr [45], room = PStr [45]\<rparr>))"
  by (simp add: process_record_def parse_int_or_none_def py_or_def Let_def)

theorem missing_key_uses_placeholder_witness:
  "\<not> truthy (CourseNo \<lparr>CourseNo = PNone, CourseName = PNone, ChooseStudent = PInt 2,
      Restrict2 = PNone, ClassRoomNo = PNone\<rparr>) \<and>
   key_of \<lparr>CourseNo = PNone, CourseName = PNone, ChooseStudent = PInt 2,
      Restrict2 = PNone, ClassRoomNo = PNone\<rparr> = PStr [45] \<and>
   process_record excerpt_env True Map.empty
     \<lparr>CourseNo = PNone, CourseName = PNone, ChooseStudent = PInt 2,
      Restrict2 = PNone, ClassRoomNo = PNone\<rparr> =
   process_record excerpt_env True Map.empty
     \<lparr>CourseNo = PStr [45], CourseName = PNone, ChooseStudent = PInt 2,
      Restrict2 = PNone, ClassRoomNo = PNone\<rparr>"
proof -
  let ?c = "\<lparr>CourseNo = PNone, CourseName = PNone, ChooseStudent = PInt 2,
      Restrict2 = PNone, ClassRoomNo = PNone\<rparr>"
  have h: "\<not> truthy (CourseNo ?c)" by simp
  from missing_key_uses_placeholder [OF h, of excerpt_env True Map.empty] h
  show ?thesis by simp
qed

subsection \<open>The retained state\<close>

lemma process_records_completed:
  "process_records db fr cs (to_print, st) = (None, to_print', st') \<Longrightarrow>
   st' = foldl (\<lambda>m c. m(key_of c \<mapsto> entry_of c)) st cs"
proof (induction cs arbitrary: to_print st)
  case Nil
  then show ?case by simp
next
  case (Cons c cs)
  show ?case
  proof (cases "process_record db fr st c")
    case (Inl e)
    with Cons.prems show ?thesis by simp
  next
    case (Inr a)
    obtain d st1 where a: "a = (d, st1)" by (cases a)
    have st1: "st1 = st(key_of c \<mapsto> entry_of c)"
      using process_record_Inr(1) [of db fr st c d st1] Inr a by simp
    obtain tp1 where "process_records db fr cs (tp1, st1) = (None, to_print', st')"
      using Cons.prems Inr a by (cases d) auto
    from Cons.IH [OF this] st1 show ?thesis by simp
  qed
qed

lemma process_records_frame:
  "process_records db fr cs (to_print, st) = (r, to_print', st') \<Longrightarrow>
   (\<forall>k. st k \<noteq> None \<longrightarrow> st' k \<noteq> None) \<and> (\<forall>k. k \<notin> key_of ` set cs \<longrightarrow> st' k = st k)"
proof (induction cs arbitrary: to_print st)
  case Nil
  then show ?case by simp
next
  case (Cons c cs)
  show ?case
  proof (cases "process_record db fr st c")
    case (Inl e)
    with Cons.prems show ?thesis by simp
  next
    case (Inr a)
    obtain d st1 where a: "a = (d, st1)" by (cases a)
    have st1: "st1 = st(key_of c \<mapsto> entry_of c)"
      using process_record_Inr(1) [of db fr st c d st1] Inr a by simp
    obtain tp1 where "process_records db fr cs (tp1, st1) = (r, to_print', st')"
      using Cons.prems Inr a by (cases d) auto
    from Cons.IH [OF this] st1 show ?thesis by auto
  qed
qed

text \<open>
  Claim C5 does not hold of the code: after a pass, a key of the snapshot can be without
  its entry. The first snapshot below has the courses A, B and C; the counts of A and C
  are 1 and the raw count of B is the string of SUPERSCRIPT TWO. The loop stores A; at B
  \<open>parse_int_or_none\<close> raises \<open>ValueError\<close> before the store at line 184, the
  \<open>for\<close> loop is abandoned and the handler sleeps. After the pass the retained state
  has the entry of A and nothing else: B and C, both in the snapshot, were never
  written. The sticky title was not written either, and \<open>first_run\<close> is still
  \<open>True\<close>.
\<close>

theorem records_after_failure_not_stored:
  "main excerpt_env
     [(24, Quiet, Response (Iterable
        [Dict \<lparr>CourseNo = PStr [65], CourseName = PNone, ChooseStudent = PInt 1,
                Restrict2 = PNone, ClassRoomNo = PNone\<rparr>,
         Dict \<lparr>CourseNo = PStr [66], CourseName = PNone, ChooseStudent = PStr [178],
                Restrict2 = PNone, ClassRoomNo = PNone\<rparr>,
         Dict \<lparr>CourseNo = PStr [67], CourseName = PNone, ChooseStudent = PInt 1,
                Restrict2 = PNone, ClassRoomNo = PNone\<rparr>]))] =
   (Continue, [Sleep INTERVAL_SECONDS],
    \<lparr>first_run = True,
     prev_state = Map.empty(PStr [65] \<mapsto>
       \<lparr>name = PStr [45], choose_raw = PInt 1, restrict2 = PStr [45], room = PStr [45]\<rparr>)\<rparr>) \<and>
   (Map.empty(PStr [65] \<mapsto>
       \<lparr>name = PStr [45], choose_raw = PInt 1, restrict2 = PStr [45], room = PStr [45]\<rparr>))
     (key_of \<lparr>CourseNo = PStr [67], CourseName = PNone, ChooseStudent = PInt 1,
              Restrict2 = PNone, ClassRoomNo = PNone\<rparr>) = None"
proof -
  let ?cA = "\<lparr>CourseNo = PStr [65], CourseName = PNone, ChooseStudent = PInt 1,
                Restrict2 = PNone, ClassRoomNo = PNone\<rparr>"
  let ?cB = "\<lparr>CourseNo = PStr [66], CourseName = PNone, ChooseStudent = PStr [178],
                Restrict2 = PNone, ClassRoomNo = PNone\<rparr>"
  let ?cC = "\<lparr>CourseNo = PStr [67], CourseName = PNone, ChooseStudent = PInt 1,
                Restrict2 = PNone, ClassRoomNo = PNone\<rparr>"
  have k: "sorted_key ?cA = PStr [65]" "sorted_key ?cB = PStr [66]" "sorted_key ?cC = PStr [67]"
    by (simp_all add: sorted_key_def py_or_def)
  have srt: "py_sorted (Iterable [Dict ?cA, Dict ?cB, Dict ?cC]) = Inr [?cA, ?cB, ?cC]"
    by (simp add: py_sorted_def k)
  have pA: "process_record excerpt_env True Map.empty ?cA =
      Inr (None, Map.empty(PStr [65] \<mapsto>
       \<lparr>name = PStr [45], choose_raw = PInt 1, restrict2 = PStr [45], room = PStr [45]\<rparr>))"
    by (simp add: process_record_def parse_int_or_none_def py_or_def Let_def)
  have pB: "process_record excerpt_env True st ?cB = Inl ValueError" for st
    using superscript_raises by (simp add: process_record_def py_or_def Let_def)
  have 1: "main excerpt_env [(24, Quiet, Response (Iterable [Dict ?cA, Dict ?cB, Dict ?cC]))] =
   (Continue, [Sleep INTERVAL_SECONDS],
    \<lparr>first_run = True,
     prev_state = Map.empty(PStr [65] \<mapsto>
       \<lparr>name = PStr [45], choose_raw = PInt 1, restrict2 = PStr [45], room = PStr [45]\<rparr>)\<rparr>)"
    by (simp add: main_def cycle_def try_body_def srt records_reached_def
        interrupted_in_loop_def pA pB)
  have 2: "(Map.empty(PStr [65] \<mapsto>
       \<lparr>name = PStr [45], choose_raw = PInt 1, restrict2 = PStr [45], room = PStr [45]\<rparr>))
     (key_of ?cC) = None"
    by (simp add: key_of_def py_or_def)
  show ?thesis by (intro conjI 1 2)
qed

subsection \<open>Exceptions in a pass\<close>

lemma try_body_Exception:
  "try_body db lines sig f s = (Exception e, es, s') \<Longrightarrow> es = [] \<and> first_run s' = first_run s"
  by (cases sig)
    (auto simp: try_body_def Let_def
      split: fetched.splits sum.splits prod.splits option.splits if_splits)

text \<open>
  An exception of the \<open>try\<close> block other than \<open>KeyboardInterrupt\<close> reaches the
  second handler, which sleeps \<open>INTERVAL_SECONDS\<close>. The loop goes on with the next
  pass unless the interrupt arrives during that sleep.
\<close>

lemma cycle_after_exception:
  assumes "try_body db lines sig f s = (Exception e, es, s')"
  shows "cycle db lines sig f s =
    (if sig = In_handler then Uncaught else Continue, [Sleep INTERVAL_SECONDS], s')"
  using assms try_body_Exception [OF assms] by (simp add: cycle_def)

text \<open>
  Claim C8 does not hold of the code: an interrupt does not always leave the loop
  cleanly. In the run below the fetch of the first pass fails, the handler at line 202
  catches the exception and sleeps at line 203, and Ctrl-C is pressed during that sleep.
  The sleep is in the handler, outside the \<open>try\<close> block, so the
  \<open>KeyboardInterrupt\<close> is caught by no clause: the loop is not left by
  \<open>break\<close>, the exception leaves \<open>main\<close>. The same failed fetch followed
  by an interrupt of the next fetch, inside the \<open>try\<close> block, leaves the loop by
  \<open>break\<close>.
\<close>

theorem handler_sleep_interrupt_uncaught:
  "main excerpt_env [(24, In_handler, Raised)] =
     (Uncaught, [Sleep INTERVAL_SECONDS], \<lparr>first_run = True, prev_state = Map.empty\<rparr>) \<and>
   main excerpt_env [(24, Quiet, Raised), (24, Quiet, Interrupted)] =
     (Break, [Sleep INTERVAL_SECONDS], \<lparr>first_run = True, prev_state = Map.empty\<rparr>)"
  by (simp add: main_def cycle_def try_body_def)

subsection \<open>The order of the output\<close>

lemma process_record_renders:
  "process_record db fr st c = Inr (Some l, st') \<Longrightarrow> renders db c l"
  using process_record_Inr(3) [of db fr st c "Some l" st']
  by (auto simp: renders_def)

lemma process_record_changed:
  "process_record db fr st c = Inr (delta, st') \<Longrightarrow> (delta \<noteq> None) = (\<not> fr \<and> changed st c)"
  using process_record_Inr(2) [of db fr st c delta st']
  by (auto simp: changed_def split: option.splits)

lemma process_records_subseq:
  "process_records db fr cs (to_print, st) = (r, to_print', st') \<Longrightarrow>
   \<exists>picked new. to_print' = to_print @ new \<and> subseq picked cs \<and> list_all2 (renders db) picked new"
proof (induction cs arbitrary: to_print st)
  case Nil
  then show ?case by simp
next
  case (Cons c cs)
  show ?case
  proof (cases "process_record db fr st c")
    case (Inl e)
    with Cons.prems have "to_print' = to_print @ []" by simp
    moreover have "subseq [] (c # cs)" by simp
    ultimately show ?thesis by (metis list_all2_Nil)
  next
    case (Inr a)
    obtain d st1 where a: "a = (d, st1)" by (cases a)
    show ?thesis
    proof (cases d)
      case None
      with Cons.prems Inr a
      have "process_records db fr cs (to_print, st1) = (r, to_print', st')" by simp
      from Cons.IH [OF this] obtain picked new where
        q: "to_print' = to_print @ new" "subseq picked cs" "list_all2 (renders db) picked new"
        by blast
      from q(2) have "subseq picked (c # cs)" by (rule list_emb_Cons)
      with q(1,3) show ?thesis by blast
    next
      case (Some l)
      with Cons.prems Inr a
      have "process_records db fr cs (to_print @ [l], st1) = (r, to_print', st')" by simp
      from Cons.IH [OF this] obtain picked new where
        p: "to_print' = (to_print @ [l]) @ new" "subseq picked cs" "list_all2 (renders db) picked new"
        by blast
      have rl: "renders db c l"
        using process_record_renders [of db fr st c l st1] Inr a Some by simp
      have "to_print' = to_print @ (l # new)" using p(1) by simp
      moreover have "subseq (c # picked) (c # cs)" using p(2) by simp
      moreover have "list_all2 (renders db) (c # picked) (l # new)" using p(3) rl by simp
      ultimately show ?thesis by blast
    qed
  qed
qed

lemma changed_other_key:
  "key_of c' \<noteq> key_of c \<Longrightarrow> changed (st(key_of c \<mapsto> e)) c' = changed st c'"
  by (simp add: changed_def)

lemma process_records_distinct:
  "distinct (map key_of cs) \<Longrightarrow>
   process_records db False cs (to_print, st) = (None, to_print', st') \<Longrightarrow>
   \<exists>new. to_print' = to_print @ new \<and> list_all2 (renders db) (filter (changed st) cs) new"
proof (induction cs arbitrary: to_print st)
  case Nil
  then show ?case by simp
next
  case (Cons c cs)
  from Cons.prems(1) have dist: "distinct (map key_of cs)"
    and other: "\<forall>c'\<in>set cs. key_of c' \<noteq> key_of c" by (force simp: image_iff)+
  show ?case
  proof (cases "process_record db False st c")
    case (Inl e)
    with Cons.prems show ?thesis by simp
  next
    case (Inr a)
    obtain d st1 where a: "a = (d, st1)" by (cases a)
    have st1: "st1 = st(key_of c \<mapsto> entry_of c)"
      using process_record_Inr(1) [of db False st c d st1] Inr a by simp
    have ch: "(d \<noteq> None) = changed st c"
      using process_record_changed [of db False st c d st1] Inr a by simp
    have flt: "filter (changed st1) cs = filter (changed st) cs"
      using other by (intro filter_cong) (auto simp: st1 changed_other_key)
    show ?thesis
    proof (cases d)
      case None
      with Cons.prems Inr a
      have "process_records db False cs (to_print, st1) = (None, to_print', st')" by simp
      from Cons.IH [OF dist this] flt ch None show ?thesis by simp
    next
      case (Some l)
      with Cons.prems Inr a
      have "process_records db False cs (to_print @ [l], st1) = (None, to_print', st')" by simp
      from Cons.IH [OF dist this] obtain new where
        p: "to_print' = (to_print @ [l]) @ new" "list_all2 (renders db) (filter (changed st1) cs) new"
        by blast
      have rl: "renders db c l"
        using process_record_renders [of db False st c l st1] Inr a Some by simp
      have "to_print' = to_print @ (l # new)" using p(1) by simp
      moreover have "list_all2 (renders db) (filter (changed st) (c # cs)) (l # new)"
        using p(2) rl ch Some flt by simp
      ultimately show ?thesis by blast
    qed
  qed
qed


lemma dicts_of_map_Dict: "dicts_of (map Dict cs) = Inr cs"
  by (induction cs) auto

lemma sorted_key_truthy: "truthy (CourseNo c) \<Longrightarrow> sorted_key c = key_of c"
  by (simp add: sorted_key_def key_of_def py_or_def)

text \<open>
  Claim C7. When the keys of a snapshot are strings, \<open>sorted\<close> puts its records in
  ascending lexicographic order of \<open>CourseNo or ""\<close> (of the key itself when every
  record has one), keeping the records and, among equal keys, their order. The loop
  processes the records in that order and the lines it produces follow it: they render,
  one each and in order, a subsequence of the sorted snapshot (the changed records, when
  no key repeats), and a pass after the first types them out in that order and then
  sleeps.
\<close>

theorem lines_follow_sorted_order:
  assumes run: "try_body db lines sig (Response (Iterable (map Dict cs))) s = (Completed, es, s')"
    and keys: "list_all (\<lambda>c. is_str (sorted_key c)) cs"
  shows "\<exists>ds to_print picked.
    py_sorted (Iterable (map Dict cs)) = Inr ds \<and>
    sorted (map (\<lambda>c. the_str (sorted_key c)) ds) \<and>
    mset ds = mset cs \<and>
    (\<forall>k. filter (\<lambda>c. the_str (sorted_key c) = k) ds =
         filter (\<lambda>c. the_str (sorted_key c) = k) cs) \<and>
    (list_all (\<lambda>c. truthy (CourseNo c)) cs \<longrightarrow> sorted (map (\<lambda>c. the_str (key_of c)) ds)) \<and>
    process_records db (first_run s) ds ([], prev_state s) = (None, to_print, prev_state s') \<and>
    subseq picked ds \<and>
    list_all2 (renders db) picked to_print \<and>
    (first_run s \<longrightarrow> to_print = []) \<and>
    (\<not> first_run s \<longrightarrow>
       es = concat (map (\<lambda>line. type_out (line @ [10])) to_print) @ [Sleep INTERVAL_SECONDS]) \<and>
    (\<not> first_run s \<and> distinct (map key_of ds) \<longrightarrow>
       picked = filter (changed (prev_state s)) ds)"
proof -
  define ds where "ds = sort_key (\<lambda>c. the_str (sorted_key c)) cs"
  have srt: "py_sorted (Iterable (map Dict cs)) = Inr ds"
    using keys by (simp add: py_sorted_def dicts_of_map_Dict ds_def)
  have 1: "sorted (map (\<lambda>c. the_str (sorted_key c)) ds)"
    by (simp add: ds_def)
  have 2: "mset ds = mset cs"
    by (simp add: ds_def)
  have 3: "\<forall>k. filter (\<lambda>c. the_str (sorted_key c) = k) ds =
         filter (\<lambda>c. the_str (sorted_key c) = k) cs"
    by (simp add: ds_def sort_key_stable)
  have set: "set ds = set cs"
    using 2 by (rule mset_eq_setD)
  have 4: "list_all (\<lambda>c. truthy (CourseNo c)) cs \<longrightarrow> sorted (map (\<lambda>c. the_str (key_of c)) ds)"
  proof
    assume "list_all (\<lambda>c. truthy (CourseNo c)) cs"
    with set have "\<forall>c\<in>set ds. sorted_key c = key_of c"
      by (auto simp: list_all_iff sorted_key_truthy)
    then have "map (\<lambda>c. the_str (key_of c)) ds = map (\<lambda>c. the_str (sorted_key c)) ds"
      by (intro map_cong) simp_all
    then show "sorted (map (\<lambda>c. the_str (key_of c)) ds)"
      using 1 by (simp only:)
  qed
  obtain to_print where
    pr: "process_records db (first_run s) ds ([], prev_state s) = (None, to_print, prev_state s')"
    and es: "\<not> first_run s \<longrightarrow>
       es = concat (map (\<lambda>line. type_out (line @ [10])) to_print) @ [Sleep INTERVAL_SECONDS]"
    using try_body_Completed [OF run srt] by auto
  have base: "first_run s \<longrightarrow> to_print = []"
    using process_records_baseline [of db ds "[]" "prev_state s" None to_print "prev_state s'"] pr
    by auto
  have "\<exists>picked. subseq picked ds \<and> list_all2 (renders db) picked to_print \<and>
      (\<not> first_run s \<and> distinct (map key_of ds) \<longrightarrow> picked = filter (changed (prev_state s)) ds)"
  proof (cases "\<not> first_run s \<and> distinct (map key_of ds)")
    case True
    with pr have "process_records db False ds ([], prev_state s) = (None, to_print, prev_state s')"
      by simp
    from process_records_distinct [OF _ this] True
    have "list_all2 (renders db) (filter (changed (prev_state s)) ds) to_print" by auto
    moreover have "subseq (filter (changed (prev_state s)) ds) ds" by simp
    ultimately show ?thesis by blast
  next
    case False
    from process_records_subseq [OF pr] obtain picked where
      "subseq picked ds" "list_all2 (renders db) picked to_print" by auto
    with False show ?thesis by blast
  qed
  then obtain picked where p: "subseq picked ds" "list_all2 (renders db) picked to_print"
    "\<not> first_run s \<and> distinct (map key_of ds) \<longrightarrow> picked = filter (changed (prev_state s)) ds"
    by blast
  from srt 1 2 3 4 pr p base es show ?thesis by blast
qed


theorem lines_follow_sorted_order_witness:
  "py_sorted (Iterable
     [Dict \<lparr>CourseNo = PStr [66], CourseName = PNone, ChooseStudent = PInt 1,
             Restrict2 = PNone, ClassRoomNo = PNone\<rparr>,
      Dict \<lparr>CourseNo = PStr [65], CourseName = PNone, ChooseStudent = PInt 2,
             Restrict2 = PNone, ClassRoomNo = PNone\<rparr>]) =
   Inr [\<lparr>CourseNo = PStr [65], CourseName = PNone, ChooseStudent = PInt 2,
          Restrict2 = PNone, ClassRoomNo = PNone\<rparr>,
        \<lparr>CourseNo = PStr [66], CourseName = PNone, ChooseStudent = PInt 1,
          Restrict2 = PNone, ClassRoomNo = PNone\<rparr>] \<and>
   (\<exists>to_print.
      fst (snd (try_body excerpt_env 24 Quiet
        (Response (Iterable
          [Dict \<lparr>CourseNo = PStr [66], CourseName = PNone, ChooseStudent = PInt 1,
                  Restrict2 = PNone, ClassRoomNo = PNone\<rparr>,
           Dict \<lparr>CourseNo = PStr [65], CourseName = PNone, ChooseStudent = PInt 2,
                  Restrict2 = PNone, ClassRoomNo = PNone\<rparr>]))
        \<lparr>first_run = False,
         prev_state = Map.empty
           (PStr [65] \<mapsto> \<lparr>name = PStr [45], choose_raw = PInt 1, restrict2 = PStr [45], room = PStr [45]\<rparr>,
            PStr [66] \<mapsto> \<lparr>name = PStr [45], choose_raw = PInt 1, restrict2 = PStr [45], room = PStr [45]\<rparr>)\<rparr>)) =
        concat (map (\<lambda>line. type_out (line @ [10])) to_print) @ [Sleep INTERVAL_SECONDS] \<and>
      list_all2 (renders excerpt_env)
        [\<lparr>CourseNo = PStr [65], CourseName = PNone, ChooseStudent = PInt 2,
          Restrict2 = PNone, ClassRoomNo = PNone\<rparr>] to_print)"
proof -
  let ?cB = "\<lparr>CourseNo = PStr [66], CourseName = PNone, ChooseStudent = PInt 1,
             Restrict2 = PNone, ClassRoomNo = PNone\<rparr>"
  let ?cA = "\<lparr>CourseNo = PStr [65], CourseName = PNone, ChooseStudent = PInt 2,
             Restrict2 = PNone, ClassRoomNo = PNone\<rparr>"
  let ?e = "\<lparr>name = PStr [45], choose_raw = PInt 1, restrict2 = PStr [45], room = PStr [45]\<rparr>"
  let ?st = "Map.empty (PStr [65] \<mapsto> ?e, PStr [66] \<mapsto> ?e)"
  let ?s = "\<lparr>first_run = False, prev_state = ?st\<rparr>"
  let ?f = "Response (Iterable (map Dict [?cB, ?cA]))"
  have kA: "key_of ?cA = PStr [65]" and kB: "key_of ?cB = PStr [66]"
    by (simp_all add: key_of_def py_or_def)
  have sA: "sorted_key ?cA = PStr [65]" and sB: "sorted_key ?cB = PStr [66]"
    by (simp_all add: sorted_key_def py_or_def)
  have keys: "list_all (\<lambda>c. is_str (sorted_key c)) [?cB, ?cA]"
    by (simp add: sA sB)
  have srt: "py_sorted (Iterable (map Dict [?cB, ?cA])) = Inr [?cA, ?cB]"
    by (simp add: py_sorted_def sA sB)
  have pA: "process_record excerpt_env False ?st ?cA =
      Inr (Some (build_colored_line excerpt_env (PStr [65]) (PStr [45]) (Some 2)
                  (PStr [45]) (PStr [45]) (Some 1)),
           ?st(PStr [65] \<mapsto> entry_of ?cA))"
    by (simp add: process_record_def parse_int_or_none_def py_or_def Let_def entry_of_def)
  have pB: "process_record excerpt_env False (?st(PStr [65] \<mapsto> entry_of ?cA)) ?cB =
      Inr (None, ?st(PStr [65] \<mapsto> entry_of ?cA, PStr [66] \<mapsto> entry_of ?cB))"
    by (simp add: process_record_def parse_int_or_none_def py_or_def Let_def entry_of_def)
  obtain out es s' where run0: "try_body excerpt_env 24 Quiet ?f ?s = (out, es, s')"
    by (cases "try_body excerpt_env 24 Quiet ?f ?s") blast
  have out: "out = Completed"
    using run0 srt pA pB
    by (simp add: try_body_def records_reached_def interrupted_in_loop_def)
  from run0 out have run: "try_body excerpt_env 24 Quiet ?f ?s = (Completed, es, s')" by simp
  from lines_follow_sorted_order [OF run keys] srt
  obtain to_print picked where
    l: "list_all2 (renders excerpt_env) picked to_print"
    and e: "\<not> first_run ?s \<longrightarrow>
       es = concat (map (\<lambda>line. type_out (line @ [10])) to_print) @ [Sleep INTERVAL_SECONDS]"
    and p: "\<not> first_run ?s \<and> distinct (map key_of [?cA, ?cB]) \<longrightarrow>
       picked = filter (changed (prev_state ?s)) [?cA, ?cB]"
    by auto
  have "picked = [?cA]"
    using p by (simp add: kA kB changed_def)
  with l e run srt show ?thesis by auto
qed

end
